theory Spec2Isabelle
  imports Main "HOL-Library.Word"
begin

section \<open>Resolved-domain history tracker (package resolver)\<close>

text \<open>
  Go's \<open>int64\<close> is a 64-bit two's complement integer whose addition wraps around;
  it is a \<open>64 word\<close> here, compared with the signed order \<open><s\<close> and read with
  \<open>sint\<close>.  A Go \<open>string\<close> is a sequence of bytes: \<open>string\<close>.
\<close>

type_synonym int64 = "64 word"

record ResolvedDomain =
  Domain :: string
  CNAMEs :: "string list"
  Expires :: int64

text \<open>
  \<open>IPInfo\<close> embeds \<open>record.Base\<close> of the record store library (not part of this
  repository).  Of that base type the code uses the key (\<open>KeyIsSet\<close>, \<open>SetKey\<close>,
  \<open>Key\<close>) and the metadata block (\<open>UpdateMeta\<close>, \<open>Meta().SetAbsoluteExpiry\<close>);
  they are the two fields \<open>Base_key\<close> (\<open>None\<close> while no key is set) and
  \<open>Base_meta\<close> (the zero value while the library has not allocated it).  The embedded
  \<open>sync.Mutex\<close> is not modelled: the functions below are the critical sections, run
  one at a time.
\<close>

record Meta =
  Created :: int64
  Modified :: int64
  MetaExpires :: int64
  Deleted :: int64

record IPInfo =
  Base_key :: "string option"
  Base_meta :: Meta
  IP :: string
  ProfileID :: string
  ResolvedDomains :: "ResolvedDomain list"

definition IPInfoProfileScopeGlobal :: string where
  "IPInfoProfileScopeGlobal = ''global''"

definition KeyIsSet :: "IPInfo \<Rightarrow> bool" where
  "KeyIsSet info = (Base_key info \<noteq> None)"

definition SetKey :: "string \<Rightarrow> IPInfo \<Rightarrow> IPInfo" where
  "SetKey k info = (if \<not> KeyIsSet info then info\<lparr>Base_key := Some k\<rparr> else info)"

text \<open>\<open>UpdateMeta\<close> reads the clock: \<open>now\<close> is the Unix time it returns.\<close>

definition UpdateMeta :: "int64 \<Rightarrow> IPInfo \<Rightarrow> IPInfo" where
  "UpdateMeta now info =
     (let m = Base_meta info;
          m1 = m\<lparr>Modified := now\<rparr>;
          m2 = (if Created m1 = 0 then m1\<lparr>Created := now\<rparr> else m1)
      in info\<lparr>Base_meta := m2\<rparr>)"

definition SetAbsoluteExpiry :: "int64 \<Rightarrow> IPInfo \<Rightarrow> IPInfo" where
  "SetAbsoluteExpiry seconds info =
     info\<lparr>Base_meta := (Base_meta info)\<lparr>MetaExpires := seconds, Deleted := 0\<rparr>\<rparr>"

subsection \<open>AddDomain and MostRecentDomain\<close>

text \<open>
  The loop of \<open>AddDomain\<close> looks for the first index whose entry has the domain of
  the new entry and stops there.
\<close>

fun find_domain :: "string \<Rightarrow> ResolvedDomain list \<Rightarrow> nat option" where
  "find_domain name [] = None"
| "find_domain name (d # ds) =
     (if Domain d = name then Some 0 else map_option Suc (find_domain name ds))"

definition AddDomain :: "ResolvedDomain \<Rightarrow> IPInfo \<Rightarrow> IPInfo" where
  "AddDomain resolved info =
     (let rds = ResolvedDomains info;
          rds' = (case find_domain (Domain resolved) rds of
                    Some idx \<Rightarrow> take idx rds @ drop (idx + 1) rds
                  | None \<Rightarrow> rds)
      in info\<lparr>ResolvedDomains := rds' @ [resolved]\<rparr>)"

definition MostRecentDomain :: "IPInfo \<Rightarrow> ResolvedDomain option" where
  "MostRecentDomain info =
     (if length (ResolvedDomains info) = 0 then None
      else Some (ResolvedDomains info ! (length (ResolvedDomains info) - 1)))"

text \<open>A sequence of \<open>AddDomain\<close> calls on one record, first call first.\<close>

fun AddDomains :: "ResolvedDomain list \<Rightarrow> IPInfo \<Rightarrow> IPInfo" where
  "AddDomains [] info = info"
| "AddDomains (r # rs) info = AddDomains rs (AddDomain r info)"

text \<open>
  The history the specification describes, written from its words: of the entries
  added, in the order added, exactly those whose domain is not added again later.
\<close>

fun last_seen_spec :: "ResolvedDomain list \<Rightarrow> ResolvedDomain list" where
  "last_seen_spec [] = []"
| "last_seen_spec (c # cs) =
     (if Domain c \<in> set (map Domain cs) then last_seen_spec cs else c # last_seen_spec cs)"

subsection \<open>Save\<close>

definition makeIPInfoKey :: "string \<Rightarrow> string \<Rightarrow> string" where
  "makeIPInfoKey profileID ip = ''cache:intel/ipInfo/'' @ profileID @ ''/'' @ ip"

text \<open>The loop of \<open>Save\<close> over the history, with the running maximum \<open>expires\<close>.\<close>

fun max_expires :: "int64 \<Rightarrow> ResolvedDomain list \<Rightarrow> int64" where
  "max_expires expires [] = expires"
| "max_expires expires (rd # rds) =
     max_expires (if expires <s Expires rd then Expires rd else expires) rds"

text \<open>
  \<open>Save\<close> up to the release of the lock: key, expiry and metadata of the record.
\<close>

definition Save_record :: "int64 \<Rightarrow> IPInfo \<Rightarrow> IPInfo" where
  "Save_record now info =
     (let info1 =
            (if \<not> KeyIsSet info then
               (let info' = (if ProfileID info = []
                             then info\<lparr>ProfileID := IPInfoProfileScopeGlobal\<rparr> else info)
                in SetKey (makeIPInfoKey (ProfileID info') (IP info')) info')
             else info);
          expires = max_expires 86400 (ResolvedDomains info1);
          info2 = UpdateMeta now info1;
          expires' = expires + 3600
      in SetAbsoluteExpiry expires' info2)"

text \<open>
  The whole of \<open>Save\<close>: the record is then handed to \<open>ipInfoDatabase.Put\<close>, the
  record store's write, a parameter here; its error is what \<open>Save\<close> returns.
\<close>

definition Save ::
  "(IPInfo \<Rightarrow> 'db \<Rightarrow> 'e option \<times> 'db) \<Rightarrow> int64 \<Rightarrow> IPInfo \<Rightarrow> 'db \<Rightarrow> 'e option \<times> IPInfo \<times> 'db"
where
  "Save put now info db =
     (let info' = Save_record now info;
          (err, db') = put info' db
      in (err, info', db'))"

text \<open>The record as \<open>Save\<close> leaves it.\<close>

definition saved :: "'e option \<times> IPInfo \<times> 'db \<Rightarrow> IPInfo" where
  "saved r = fst (snd r)"

text \<open>
  A store for the examples: a map from keys to records whose write always succeeds.
\<close>

definition mem_Put :: "IPInfo \<Rightarrow> (string \<rightharpoonup> IPInfo) \<Rightarrow> unit option \<times> (string \<rightharpoonup> IPInfo)" where
  "mem_Put info db = (None, (case Base_key info of None \<Rightarrow> db | Some k \<Rightarrow> db(k \<mapsto> info)))"

definition new_IPInfo :: "string \<Rightarrow> string \<Rightarrow> ResolvedDomain list \<Rightarrow> IPInfo" where
  "new_IPInfo ip profile rds =
     \<lparr>Base_key = None,
      Base_meta = \<lparr>Created = 0, Modified = 0, MetaExpires = 0, Deleted = 0\<rparr>,
      IP = ip, ProfileID = profile, ResolvedDomains = rds\<rparr>"

definition mkRD :: "string \<Rightarrow> int64 \<Rightarrow> ResolvedDomain" where
  "mkRD name e = \<lparr>Domain = name, CNAMEs = [], Expires = e\<rparr>"

text \<open>The operations that change a record over its lifetime.\<close>

datatype op = OpSave int64 | OpAddDomain ResolvedDomain

fun run_ops ::
  "(IPInfo \<Rightarrow> 'db \<Rightarrow> 'e option \<times> 'db) \<Rightarrow> op list \<Rightarrow> IPInfo \<times> 'db \<Rightarrow> IPInfo \<times> 'db"
where
  "run_ops put [] s = s"
| "run_ops put (OpSave now # ops) (info, db) =
     (case Save put now info db of (err, info', db') \<Rightarrow> run_ops put ops (info', db'))"
| "run_ops put (OpAddDomain r # ops) (info, db) = run_ops put ops (AddDomain r info, db)"

section \<open>Blocklist membership resolver (package filterlists)\<close>

text \<open>
  A call returns \<open>([]string, error)\<close>: either an error (\<open>Inl\<close>) or the list of
  sources (\<open>Inr\<close>, the nil slice being the empty list).  \<open>ErrNotFound\<close> is the
  sentinel \<open>database.ErrNotFound\<close>, \<open>ErrStore\<close> any other error of the record
  store; the other three are the errors the lookups create themselves.
\<close>

datatype go_error =
  ErrNotFound | ErrStore string | ErrInvalidIP | ErrInvalidIPv4 | ErrInvalidIPv6

type_synonym lookup_result = "go_error + string list"

record entityRecord =
  Sources :: "string list"

text \<open>
  What a call does besides returning is kept in a trace: the log lines, the tests of the
  pre-filter and the queries to the record store, in the order they happen.
\<close>

datatype event =
  LogWarning string | LogDebug string | LogError string go_error
| FilterTest string string | StoreGet string

fun store_queries :: "event list \<Rightarrow> string list" where
  "store_queries [] = []"
| "store_queries (StoreGet k # es) = k # store_queries es"
| "store_queries (e # es) = store_queries es"

fun filter_tests :: "event list \<Rightarrow> (string \<times> string) list" where
  "filter_tests [] = []"
| "filter_tests (FilterTest entity v # es) = (entity, v) # filter_tests es"
| "filter_tests (e # es) = filter_tests es"

type_synonym net_IP = "8 word list"

text \<open>
  The lookups use, from other files of the package, \<open>isLoaded\<close>,
  \<open>defaultFilter.test\<close>, \<open>getEntityRecordByKey\<close> and \<open>makeListCacheKey\<close>, and from
  Go's library \<open>net.ParseIP\<close>, \<open>net.IP.String\<close> and, inside
  \<open>strings.ToLower\<close>, the Unicode mapping \<open>Map(unicode.ToLower, s)\<close>.  They are
  parameters, the fields of \<open>env\<close>.  The read lock on the filter is not modelled.
\<close>

record env =
  isLoaded :: bool
  defaultFilter_test :: "string \<Rightarrow> string \<Rightarrow> bool"
  getEntityRecordByKey :: "string \<Rightarrow> go_error + entityRecord"
  makeListCacheKey :: "string \<Rightarrow> string \<Rightarrow> string"
  ParseIP :: "string \<Rightarrow> net_IP option"
  IP_String :: "net_IP \<Rightarrow> string"
  unicode_ToLower :: "string \<Rightarrow> string"

definition lookupBlockLists ::
  "env \<Rightarrow> string \<Rightarrow> string \<Rightarrow> event list \<Rightarrow> lookup_result \<times> event list"
where
  "lookupBlockLists env entity v tr =
     (let key = makeListCacheKey env entity v in
      if \<not> isLoaded env then (Inr [], tr @ [LogWarning key])
      else
        let tr1 = tr @ [FilterTest entity v] in
        if \<not> defaultFilter_test env entity v then (Inr [], tr1)
        else
          let tr2 = tr1 @ [LogDebug key, StoreGet key] in
          (case getEntityRecordByKey env key of
             Inl err \<Rightarrow>
               if err = ErrNotFound then (Inr [], tr2)
               else (Inl err, tr2 @ [LogError key err])
           | Inr entry \<Rightarrow> (Inr (Sources entry), tr2)))"

definition LookupCountry :: "env \<Rightarrow> string \<Rightarrow> event list \<Rightarrow> lookup_result \<times> event list" where
  "LookupCountry env country tr = lookupBlockLists env ''country'' country tr"

subsection \<open>Domains\<close>

text \<open>
  \<open>strings.ToLower\<close>: a string of ASCII bytes only is mapped byte by byte (and
  returned as it is when it has no upper-case letter); any other string goes through the
  Unicode mapping.
\<close>

definition isASCII :: "string \<Rightarrow> bool" where
  "isASCII s = list_all (\<lambda>c. (of_char c :: nat) < 128) s"

definition isUpper :: "char \<Rightarrow> bool" where
  "isUpper c = (65 \<le> (of_char c :: nat) \<and> (of_char c :: nat) \<le> 90)"

definition lower_byte :: "char \<Rightarrow> char" where
  "lower_byte c = (if isUpper c then char_of ((of_char c :: nat) + 32) else c)"

definition ToLower :: "env \<Rightarrow> string \<Rightarrow> string" where
  "ToLower env s =
     (if isASCII s then (if \<not> list_ex isUpper s then s else map lower_byte s)
      else unicode_ToLower env s)"

text \<open>
  A call either returns or panics.  Indexing a string out of range is a run-time panic
  in Go.
\<close>

datatype 'a outcome = Returns 'a | Panics

text \<open>
  The first statements of \<open>LookupDomain\<close>, which turn the domain into the value
  looked up.  \<open>domain[len(domain)-1]\<close> reads index \<open>-1\<close> of the empty string.
\<close>

definition domain_key :: "env \<Rightarrow> string \<Rightarrow> string outcome" where
  "domain_key env domain =
     (let domain1 = ToLower env domain in
      if length domain1 = 0 then Panics
      else if domain1 ! (length domain1 - 1) \<noteq> CHR ''.'' then Returns (domain1 @ ''.'')
      else Returns domain1)"

definition LookupDomain ::
  "env \<Rightarrow> string \<Rightarrow> event list \<Rightarrow> (lookup_result \<times> event list) outcome"
where
  "LookupDomain env domain tr =
     (case domain_key env domain of
        Panics \<Rightarrow> Panics
      | Returns domain' \<Rightarrow> Returns (lookupBlockLists env ''domain'' domain' tr))"

definition LookupASNString :: "env \<Rightarrow> string \<Rightarrow> event list \<Rightarrow> lookup_result \<times> event list" where
  "LookupASNString env asn tr = lookupBlockLists env ''asn'' asn tr"

subsection \<open>IP addresses\<close>

text \<open>
  \<open>net.IP\<close> is a byte slice.  \<open>To4\<close> and \<open>To16\<close> follow Go's library: a 4-byte
  address, or a 16-byte address with the IPv4-in-IPv6 prefix, converts to 4 bytes; a
  4-byte or 16-byte address converts to 16 bytes; \<open>None\<close> is the nil result.
\<close>

definition v4InV6Prefix :: net_IP where
  "v4InV6Prefix = [0, 0, 0, 0, 0, 0, 0, 0, 0, 0, 0xff, 0xff]"

definition To4 :: "net_IP \<Rightarrow> net_IP option" where
  "To4 ip =
     (if length ip = 4 then Some ip
      else if length ip = 16 \<and> list_all (\<lambda>b. b = 0) (take 10 ip)
              \<and> ip ! 10 = 0xff \<and> ip ! 11 = 0xff
      then Some (drop 12 ip)
      else None)"

definition To16 :: "net_IP \<Rightarrow> net_IP option" where
  "To16 ip =
     (if length ip = 4 then Some (v4InV6Prefix @ ip)
      else if length ip = 16 then Some ip
      else None)"

definition LookupIPv4String :: "env \<Rightarrow> string \<Rightarrow> event list \<Rightarrow> lookup_result \<times> event list" where
  "LookupIPv4String env ipv4 tr = lookupBlockLists env ''ipv4'' ipv4 tr"

definition LookupIPv4 :: "env \<Rightarrow> net_IP \<Rightarrow> event list \<Rightarrow> lookup_result \<times> event list" where
  "LookupIPv4 env ipv4 tr =
     (case To4 ipv4 of
        None \<Rightarrow> (Inl ErrInvalidIPv4, tr)
      | Some ip \<Rightarrow> LookupIPv4String env (IP_String env ip) tr)"

definition LookupIPv6String :: "env \<Rightarrow> string \<Rightarrow> event list \<Rightarrow> lookup_result \<times> event list" where
  "LookupIPv6String env ipv6 tr = lookupBlockLists env ''ipv6'' ipv6 tr"

definition LookupIPv6 :: "env \<Rightarrow> net_IP \<Rightarrow> event list \<Rightarrow> lookup_result \<times> event list" where
  "LookupIPv6 env ipv6 tr =
     (case To16 ipv6 of
        None \<Rightarrow> (Inl ErrInvalidIPv6, tr)
      | Some ip \<Rightarrow> LookupIPv6String env (IP_String env ip) tr)"

definition LookupIP :: "env \<Rightarrow> net_IP \<Rightarrow> event list \<Rightarrow> lookup_result \<times> event list" where
  "LookupIP env ip tr =
     (if To4 ip = None then LookupIPv6 env ip tr else LookupIPv4 env ip tr)"

definition LookupIPString :: "env \<Rightarrow> string \<Rightarrow> event list \<Rightarrow> lookup_result \<times> event list" where
  "LookupIPString env ipStr tr =
     (case ParseIP env ipStr of
        None \<Rightarrow> (Inl ErrInvalidIP, tr)
      | Some ip \<Rightarrow> LookupIP env ip tr)"

subsection \<open>An environment for the examples\<close>

text \<open>
  A pre-filter that answers true for three values, a store that holds one of them,
  lacks the second (a false positive of the filter) and fails on the third, and a
  parser that knows two addresses.
\<close>

definition demo_key :: "string \<Rightarrow> string \<Rightarrow> string" where
  "demo_key entity v = ''cache:intel/filterlists/lists/'' @ entity @ ''/'' @ v"

definition demo_store :: "string \<Rightarrow> go_error + entityRecord" where
  "demo_store key =
     (if key = demo_key ''ipv4'' ''6.6.6.6'' then Inr \<lparr>Sources = [''TRAC'', ''MAL'']\<rparr>
      else if key = demo_key ''domain'' ''broken.example.'' then Inl (ErrStore ''i/o error'')
      else Inl ErrNotFound)"

definition loopback6 :: net_IP where
  "loopback6 = [0, 0, 0, 0, 0, 0, 0, 0, 0, 0, 0, 0, 0, 0, 0, 1]"

definition demo_env :: "bool \<Rightarrow> env" where
  "demo_env loaded =
     \<lparr>isLoaded = loaded,
      defaultFilter_test =
        (\<lambda>entity v. v = ''6.6.6.6'' \<or> v = ''broken.example.'' \<or> v = ''maybe.example.''),
      getEntityRecordByKey = demo_store,
      makeListCacheKey = demo_key,
      ParseIP =
        (\<lambda>s. if s = ''6.6.6.6'' then Some (v4InV6Prefix @ [6, 6, 6, 6])
             else if s = ''::1'' then Some loopback6 else None),
      IP_String =
        (\<lambda>ip. if ip = [6, 6, 6, 6] then ''6.6.6.6''
              else if ip = loopback6 then ''::1'' else ''?''),
      unicode_ToLower = (\<lambda>s. s)\<rparr>"

section \<open>Properties of the history tracker\<close>

subsection \<open>Auxiliary facts\<close>

lemma remove_found:
  "distinct (map Domain rds) \<Longrightarrow>
   (case find_domain name rds of Some idx \<Rightarrow> take idx rds @ drop (idx + 1) rds | None \<Rightarrow> rds)
     = filter (\<lambda>d. Domain d \<noteq> name) rds"
proof (induction rds)
  case Nil
  then show ?case by simp
next
  case (Cons d ds)
  show ?case
  proof (cases "Domain d = name")
    case True
    with Cons.prems have "\<forall>x \<in> set ds. Domain x \<noteq> name" by (auto simp: image_iff)
    then have "filter (\<lambda>d. Domain d \<noteq> name) ds = ds" by (simp add: filter_id_conv)
    with True show ?thesis by simp
  next
    case False
    with Cons show ?thesis by (cases "find_domain name ds") auto
  qed
qed

lemma last_seen_snoc:
  "last_seen_spec (cs @ [c]) = filter (\<lambda>d. Domain d \<noteq> Domain c) (last_seen_spec cs) @ [c]"
  by (induction cs) auto

lemma domains_last_seen: "set (map Domain (last_seen_spec cs)) = set (map Domain cs)"
  by (induction cs) auto

lemma distinct_last_seen: "distinct (map Domain (last_seen_spec cs))"
  by (induction cs) (auto simp: domains_last_seen[simplified])

lemma AddDomain_last_seen:
  "ResolvedDomains info = last_seen_spec cs \<Longrightarrow>
   ResolvedDomains (AddDomain c info) = last_seen_spec (cs @ [c])"
  using remove_found[OF distinct_last_seen, of cs "Domain c"]
  by (simp add: AddDomain_def last_seen_snoc)

lemma AddDomains_last_seen:
  "ResolvedDomains info = last_seen_spec cs \<Longrightarrow>
   ResolvedDomains (AddDomains rs info) = last_seen_spec (cs @ rs)"
proof (induction rs arbitrary: info cs)
  case Nil
  then show ?case by simp
next
  case (Cons r rs)
  from Cons.IH[OF AddDomain_last_seen[OF Cons.prems], of r] show ?case by simp
qed

lemma last_last_seen: "cs \<noteq> [] \<Longrightarrow> last (last_seen_spec cs) = last cs \<and> last_seen_spec cs \<noteq> []"
  by (induction cs rule: rev_induct) (auto simp: last_seen_snoc)

lemma last_seen_entry:
  "e \<in> set (last_seen_spec cs) \<Longrightarrow>
   \<exists>pre post. cs = pre @ e # post \<and> Domain e \<notin> set (map Domain post)"
proof (induction cs)
  case Nil
  then show ?case by simp
next
  case (Cons c cs)
  show ?case
  proof (cases "e = c \<and> Domain c \<notin> set (map Domain cs)")
    case True
    then have "c # cs = [] @ e # cs \<and> Domain e \<notin> set (map Domain cs)" by simp
    then show ?thesis by blast
  next
    case False
    with Cons.prems have "e \<in> set (last_seen_spec cs)" by (auto split: if_splits)
    from Cons.IH[OF this] obtain pre post where "cs = pre @ e # post \<and> Domain e \<notin> set (map Domain post)" by blast
    then have "c # cs = (c # pre) @ e # post \<and> Domain e \<notin> set (map Domain post)" by simp
    then show ?thesis by blast
  qed
qed

lemma sint_add_no_overflow:
  fixes m c :: int64
  assumes "- (2 ^ 63) \<le> sint m + sint c" "sint m + sint c < 2 ^ 63"
  shows "sint (m + c) = sint m + sint c"
proof -
  have "sint (m + c) = signed_take_bit 63 (sint m + sint c)"
    by (simp add: sint_word_ariths)
  with assms show ?thesis by (simp add: signed_take_bit_int_eq_self)
qed

lemma sint_max_expires:
  "sint (max_expires e rds) = Max (insert (sint e) (sint ` Expires ` set rds))"
proof (induction rds arbitrary: e)
  case Nil
  then show ?case by simp
next
  case (Cons r rds)
  let ?S = "sint ` Expires ` set rds"
  let ?x = "sint (Expires r)"
  have fin: "finite ?S" by simp
  have split: "Max (insert (sint e) (sint ` Expires ` set (r # rds)))
                = max (sint e) (Max (insert ?x ?S))"
    using fin by simp
  show ?case
  proof (cases "e <s Expires r")
    case True
    then have lt: "sint e < ?x" by (simp add: word_sless_alt)
    have "?x \<le> Max (insert ?x ?S)" using fin by simp
    with lt have "max (sint e) (Max (insert ?x ?S)) = Max (insert ?x ?S)" by linarith
    with split True Cons.IH[of "Expires r"] show ?thesis by simp
  next
    case False
    then have ge: "?x \<le> sint e" by (simp add: word_sless_alt)
    have "max (sint e) (Max (insert ?x ?S)) = Max (insert (sint e) ?S)"
    proof (cases "?S = {}")
      case True
      with ge show ?thesis by simp
    next
      case False
      with fin ge show ?thesis by (simp add: max.assoc[symmetric])
    qed
    with split False Cons.IH[of e] show ?thesis by simp
  qed
qed

lemma MetaExpires_Save_record:
  "MetaExpires (Base_meta (Save_record now info)) = max_expires 86400 (ResolvedDomains info) + 3600"
  by (simp add: Save_record_def SetAbsoluteExpiry_def UpdateMeta_def SetKey_def Let_def)

lemma saved_Save: "saved (Save put now info db) = Save_record now info"
  by (simp add: saved_def Save_def Let_def split: prod.splits)

lemma Base_key_AddDomain: "Base_key (AddDomain r info) = Base_key info"
  by (simp add: AddDomain_def Let_def)

lemma Base_key_Save_record_set:
  "KeyIsSet info \<Longrightarrow> Base_key (Save_record now info) = Base_key info
      \<and> ProfileID (Save_record now info) = ProfileID info \<and> IP (Save_record now info) = IP info"
  by (simp add: Save_record_def SetAbsoluteExpiry_def UpdateMeta_def Let_def)

lemma Base_key_Save_record_unset:
  "\<not> KeyIsSet info \<Longrightarrow>
     Base_key (Save_record now info)
       = Some (makeIPInfoKey (if ProfileID info = [] then ''global'' else ProfileID info) (IP info))
     \<and> ProfileID (Save_record now info) = (if ProfileID info = [] then ''global'' else ProfileID info)"
  by (simp add: Save_record_def SetAbsoluteExpiry_def UpdateMeta_def SetKey_def Let_def
        IPInfoProfileScopeGlobal_def KeyIsSet_def)

lemma KeyIsSet_Save_record: "KeyIsSet (Save_record now info)"
  by (cases "KeyIsSet info")
     (simp_all add: Base_key_Save_record_set Base_key_Save_record_unset KeyIsSet_def)

lemma run_ops_key:
  "KeyIsSet info \<Longrightarrow> Base_key (fst (run_ops put ops (info, db))) = Base_key info"
proof (induction ops arbitrary: info db)
  case Nil
  then show ?case by simp
next
  case (Cons o' ops)
  show ?case
  proof (cases o')
    case (OpSave now)
    obtain err db' where p: "put (Save_record now info) db = (err, db')" by (cases "put (Save_record now info) db")
    have k: "KeyIsSet (Save_record now info)" by (rule KeyIsSet_Save_record)
    from Cons.IH[OF k, of db'] p OpSave Cons.prems show ?thesis
      by (simp add: Save_def Let_def Base_key_Save_record_set)
  next
    case (OpAddDomain r)
    from Cons.prems have "KeyIsSet (AddDomain r info)" by (simp add: KeyIsSet_def Base_key_AddDomain)
    from Cons.IH[OF this, of db] OpAddDomain show ?thesis by (simp add: Base_key_AddDomain)
  qed
qed

lemma Save_expiry_above_constant:
  "((\<exists>r \<in> set (ResolvedDomains info). 86400 < sint (Expires r))
     \<and> (\<forall>r \<in> set (ResolvedDomains info). sint (Expires r) \<le> 2 ^ 63 - 1 - 3600)
    \<longrightarrow> sint (MetaExpires (Base_meta (saved (Save put now info db))))
          = Max (sint ` Expires ` set (ResolvedDomains info)) + 3600)
   \<and> (- 113600 < sint now \<and> sint now \<le> 2 ^ 63 - 1 - 203600
        \<and> map Expires (ResolvedDomains info) = [now + 100, now + 200000]
    \<longrightarrow> MetaExpires (Base_meta (saved (Save put now info db))) = now + 200000 + 3600
        \<and> sint (MetaExpires (Base_meta (saved (Save put now info db)))) = sint now + 200000 + 3600)"
proof (intro conjI impI)
  assume h: "(\<exists>r \<in> set (ResolvedDomains info). 86400 < sint (Expires r))
     \<and> (\<forall>r \<in> set (ResolvedDomains info). sint (Expires r) \<le> 2 ^ 63 - 1 - 3600)"
  let ?S = "sint ` Expires ` set (ResolvedDomains info)"
  let ?m = "max_expires 86400 (ResolvedDomains info)"
  from h obtain r where r: "r \<in> set (ResolvedDomains info)" "86400 < sint (Expires r)" by blast
  have fin: "finite ?S" and ne: "?S \<noteq> {}" using r by auto
  have "sint (Expires r) \<le> Max ?S" using r fin by simp
  with r have big: "86400 < Max ?S" by linarith
  have m: "sint ?m = Max ?S"
    using fin ne big by (simp add: sint_max_expires)
  have "Max ?S \<in> ?S" using fin ne by (rule Max_in)
  with h have "Max ?S \<le> 2 ^ 63 - 1 - 3600" by auto
  with m big have "sint (?m + 3600) = sint ?m + sint (3600 :: int64)"
    by (intro sint_add_no_overflow) simp_all
  with m show "sint (MetaExpires (Base_meta (saved (Save put now info db)))) = Max ?S + 3600"
    by (simp add: saved_Save MetaExpires_Save_record)
next
  assume h: "- 113600 < sint now \<and> sint now \<le> 2 ^ 63 - 1 - 203600
        \<and> map Expires (ResolvedDomains info) = [now + 100, now + 200000]"
  then obtain a b where ab: "ResolvedDomains info = [a, b]" "Expires a = now + 100"
      "Expires b = now + 200000" by auto
  from h have s1: "sint (now + 100) = sint now + 100"
    using sint_add_no_overflow[of now 100] by simp
  from h have s2: "sint (now + 200000) = sint now + 200000"
    using sint_add_no_overflow[of now 200000] by simp
  from h s1 s2 have "max_expires 86400 [a, b] = now + 200000"
    using ab by (simp add: word_sless_alt)
  with ab show e: "MetaExpires (Base_meta (saved (Save put now info db))) = now + 200000 + 3600"
    by (simp add: saved_Save MetaExpires_Save_record)
  from h s2 have "sint (now + 200000 + 3600) = sint (now + 200000) + sint (3600 :: int64)"
    by (intro sint_add_no_overflow) simp_all
  with e s2 show "sint (MetaExpires (Base_meta (saved (Save put now info db)))) = sint now + 200000 + 3600"
    by simp
qed

subsection \<open>Expiry floor\<close>

text \<open>
  Claim C1: \<open>Save\<close> sets the absolute expiry to at least \<open>now + 86400 + 3600\<close>,
  whatever the history holds.  The code starts its running maximum at the constant
  \<open>86400\<close>, which it then treats as an absolute time like the \<open>Expires\<close> values
  it is compared with: the clock does not enter the computation.  For a record with an
  empty history the saved expiry is \<open>90000\<close> at every time \<open>now\<close>; saved at time
  \<open>1000000\<close> that is below \<open>1000000 + 86400 + 3600\<close>, and with one entry that
  expires at \<open>now + 100\<close> the saved expiry is \<open>now + 3700\<close>.
\<close>

theorem Save_floor_ignores_now:
  "MetaExpires (Base_meta (saved (Save put now (info\<lparr>ResolvedDomains := []\<rparr>) db))) = 90000
   \<and> sint (MetaExpires (Base_meta (saved
        (Save mem_Put 1000000 (new_IPInfo ''1.2.3.4'' [] []) Map.empty)))) = 90000
   \<and> (90000 :: int) < sint (1000000 :: int64) + 86400 + 3600
   \<and> sint (MetaExpires (Base_meta (saved
        (Save mem_Put 1000000 (new_IPInfo ''1.2.3.4'' [] [mkRD ''a.com'' 1000100]) Map.empty)))) = 1003700"
  by (simp add: saved_Save MetaExpires_Save_record new_IPInfo_def mkRD_def)

subsection \<open>Deduplication and recency\<close>

text \<open>
  Claim C2: starting from an empty history, after any sequence of \<open>AddDomain\<close> calls
  the history has at most one entry per domain; it is the sequence of the entries added,
  in the order added, without those whose domain was added again later, so every entry
  is the most recently added one for its domain and the order is that of last addition;
  every domain added is present; and \<open>MostRecentDomain\<close> returns the entry added last,
  or nothing when no entry was added.
\<close>

theorem AddDomain_history_dedup_recency:
  assumes "ResolvedDomains info = []"
  shows "distinct (map Domain (ResolvedDomains (AddDomains calls info)))
       \<and> ResolvedDomains (AddDomains calls info) = last_seen_spec calls
       \<and> set (map Domain (ResolvedDomains (AddDomains calls info))) = set (map Domain calls)
       \<and> (\<forall>e \<in> set (ResolvedDomains (AddDomains calls info)).
             \<exists>pre post. calls = pre @ e # post \<and> Domain e \<notin> set (map Domain post))
       \<and> MostRecentDomain (AddDomains calls info) = (if calls = [] then None else Some (last calls))"
proof -
  from assms have "ResolvedDomains info = last_seen_spec []" by simp
  from AddDomains_last_seen[OF this, of calls]
  have h: "ResolvedDomains (AddDomains calls info) = last_seen_spec calls" by simp
  have m: "MostRecentDomain (AddDomains calls info) = (if calls = [] then None else Some (last calls))"
  proof (cases "calls = []")
    case True
    with h show ?thesis by (simp add: MostRecentDomain_def)
  next
    case False
    from last_last_seen[OF False]
    have l: "last (last_seen_spec calls) = last calls" and ne: "last_seen_spec calls \<noteq> []"
      by simp_all
    from ne have "last_seen_spec calls ! (length (last_seen_spec calls) - 1)
                    = last (last_seen_spec calls)"
      by (simp add: last_conv_nth)
    with l ne h False show ?thesis by (simp add: MostRecentDomain_def)
  qed
  from h m distinct_last_seen[of calls] domains_last_seen[of calls] last_seen_entry[of _ calls]
  show ?thesis by auto
qed

text \<open>
  The scenario of the specification: \<open>a.com\<close>, then \<open>b.com\<close>, then \<open>a.com\<close>
  again leaves \<open>[b.com, a.com]\<close> with the later \<open>a.com\<close> entry.
\<close>

theorem AddDomain_history_dedup_recency_witness:
  "ResolvedDomains
     (AddDomains [mkRD ''a.com'' 100, mkRD ''b.com'' 200, mkRD ''a.com'' 300]
        (new_IPInfo ''1.2.3.4'' [] []))
     = [mkRD ''b.com'' 200, mkRD ''a.com'' 300]
   \<and> MostRecentDomain
     (AddDomains [mkRD ''a.com'' 100, mkRD ''b.com'' 200, mkRD ''a.com'' 300]
        (new_IPInfo ''1.2.3.4'' [] []))
     = Some (mkRD ''a.com'' 300)"
proof -
  have e: "ResolvedDomains (new_IPInfo ''1.2.3.4'' [] []) = []" by (simp add: new_IPInfo_def)
  have l: "last_seen_spec [mkRD ''a.com'' 100, mkRD ''b.com'' 200, mkRD ''a.com'' 300]
             = [mkRD ''b.com'' 200, mkRD ''a.com'' 300]"
    by (simp add: mkRD_def)
  from AddDomain_history_dedup_recency[OF e,
         of "[mkRD ''a.com'' 100, mkRD ''b.com'' 200, mkRD ''a.com'' 300]"] l
  show ?thesis by simp
qed

subsection \<open>Expiry above the floor\<close>

text \<open>
  Claim C6 as stated, for every record, fails where the addition of the buffer
  overflows \<open>int64\<close>: with an entry that expires at \<open>2^63 - 1\<close> the saved expiry is
  negative, below the largest \<open>Expires\<close> plus \<open>3600\<close>.
\<close>

theorem Save_expiry_overflow_counterexample:
  "86400 < sint (Expires (mkRD ''a.com'' 9223372036854775807))
   \<and> sint (1000000 :: int64) + 86400 < sint (Expires (mkRD ''a.com'' 9223372036854775807))
   \<and> sint (MetaExpires (Base_meta (saved
        (Save mem_Put 1000000 (new_IPInfo ''1.2.3.4'' [] [mkRD ''a.com'' 9223372036854775807])
           Map.empty)))) = - 9223372036854772209
   \<and> sint (MetaExpires (Base_meta (saved
        (Save mem_Put 1000000 (new_IPInfo ''1.2.3.4'' [] [mkRD ''a.com'' 9223372036854775807])
           Map.empty)))) < sint (Expires (mkRD ''a.com'' 9223372036854775807)) + 3600"
  by (simp add: saved_Save MetaExpires_Save_record new_IPInfo_def mkRD_def)

text \<open>
  Claim C6, amended: for a time \<open>now\<close> that is not negative, when some entry of the
  history has \<open>Expires\<close> above the floor \<open>now + 86400\<close> and no entry has
  \<open>Expires\<close> above \<open>2^63 - 1 - 3600\<close>, so that the addition of the buffer stays
  inside \<open>int64\<close>, \<open>Save\<close> sets the absolute expiry to exactly the largest
  \<open>Expires\<close> of the history plus \<open>3600\<close>.  In particular, with the expiries
  \<open>now + 100\<close> and \<open>now + 200000\<close>, for \<open>0 \<le> now \<le> 2^63 - 1 - 203600\<close>,
  the saved expiry is \<open>now + 200000 + 3600\<close>.
\<close>

theorem Save_expiry_is_max_plus_buffer:
  "(0 \<le> sint now
     \<and> (\<exists>r \<in> set (ResolvedDomains info). sint now + 86400 < sint (Expires r))
     \<and> (\<forall>r \<in> set (ResolvedDomains info). sint (Expires r) \<le> 2 ^ 63 - 1 - 3600)
    \<longrightarrow> sint (MetaExpires (Base_meta (saved (Save put now info db))))
          = Max (sint ` Expires ` set (ResolvedDomains info)) + 3600)
   \<and> (0 \<le> sint now \<and> sint now \<le> 2 ^ 63 - 1 - 203600
        \<and> map Expires (ResolvedDomains info) = [now + 100, now + 200000]
    \<longrightarrow> MetaExpires (Base_meta (saved (Save put now info db))) = now + 200000 + 3600
        \<and> sint (MetaExpires (Base_meta (saved (Save put now info db)))) = sint now + 200000 + 3600)"
proof (intro conjI impI)
  assume h: "0 \<le> sint now
     \<and> (\<exists>r \<in> set (ResolvedDomains info). sint now + 86400 < sint (Expires r))
     \<and> (\<forall>r \<in> set (ResolvedDomains info). sint (Expires r) \<le> 2 ^ 63 - 1 - 3600)"
  then obtain r where "r \<in> set (ResolvedDomains info)" "sint now + 86400 < sint (Expires r)"
    by blast
  with h have "r \<in> set (ResolvedDomains info)" "86400 < sint (Expires r)" by simp_all
  then have "\<exists>r \<in> set (ResolvedDomains info). 86400 < sint (Expires r)" by blast
  with h Save_expiry_above_constant[of info put now db]
  show "sint (MetaExpires (Base_meta (saved (Save put now info db))))
          = Max (sint ` Expires ` set (ResolvedDomains info)) + 3600"
    by blast
next
  assume h: "0 \<le> sint now \<and> sint now \<le> 2 ^ 63 - 1 - 203600
        \<and> map Expires (ResolvedDomains info) = [now + 100, now + 200000]"
  then have "- 113600 < sint now \<and> sint now \<le> 2 ^ 63 - 1 - 203600
        \<and> map Expires (ResolvedDomains info) = [now + 100, now + 200000]"
    by simp
  with Save_expiry_above_constant[of info put now db]
  show "MetaExpires (Base_meta (saved (Save put now info db))) = now + 200000 + 3600"
    and "sint (MetaExpires (Base_meta (saved (Save put now info db)))) = sint now + 200000 + 3600"
    by blast+
qed

theorem Save_expiry_is_max_plus_buffer_witness:
  "sint (MetaExpires (Base_meta (saved
     (Save mem_Put 1000000
        (new_IPInfo ''1.2.3.4'' [] [mkRD ''a.com'' (1000000 + 100), mkRD ''b.com'' (1000000 + 200000)])
        Map.empty)))) = 1203600"
proof -
  let ?info = "new_IPInfo ''1.2.3.4'' [] [mkRD ''a.com'' (1000000 + 100), mkRD ''b.com'' (1000000 + 200000)]"
  have 1: "0 \<le> sint (1000000 :: int64)
     \<and> (\<exists>r \<in> set (ResolvedDomains ?info). sint (1000000 :: int64) + 86400 < sint (Expires r))
     \<and> (\<forall>r \<in> set (ResolvedDomains ?info). sint (Expires r) \<le> 2 ^ 63 - 1 - 3600)"
    by (simp add: new_IPInfo_def mkRD_def)
  have 2: "0 \<le> sint (1000000 :: int64) \<and> sint (1000000 :: int64) \<le> 2 ^ 63 - 1 - 203600
        \<and> map Expires (ResolvedDomains ?info) = [1000000 + 100, 1000000 + 200000]"
    by (simp add: new_IPInfo_def mkRD_def)
  from Save_expiry_is_max_plus_buffer[of 1000000 ?info mem_Put Map.empty] 1 2
  have "sint (MetaExpires (Base_meta (saved (Save mem_Put 1000000 ?info Map.empty))))
          = Max (sint ` Expires ` set (ResolvedDomains ?info)) + 3600"
    and "sint (MetaExpires (Base_meta (saved (Save mem_Put 1000000 ?info Map.empty))))
          = sint (1000000 :: int64) + 200000 + 3600"
    by blast+
  then show ?thesis by simp
qed

subsection \<open>The store key\<close>

text \<open>
  Claim C10: \<open>Save\<close> assigns the key once.  On a record without a key it sets an
  empty \<open>ProfileID\<close> to \<open>global\<close> and the key to
  \<open>cache:intel/ipInfo/<ProfileID>/<IP>\<close>; on a record with a key it leaves key and
  \<open>ProfileID\<close> as they are; after a \<open>Save\<close> the key is set, and no later
  sequence of \<open>Save\<close> and \<open>AddDomain\<close> calls changes it.
\<close>

theorem Save_key_assigned_once:
  "(\<not> KeyIsSet info \<longrightarrow>
      Base_key (saved (Save put now info db))
        = Some (''cache:intel/ipInfo/'' @ (if ProfileID info = [] then ''global'' else ProfileID info)
                  @ ''/'' @ IP info)
      \<and> ProfileID (saved (Save put now info db))
        = (if ProfileID info = [] then ''global'' else ProfileID info))
   \<and> (KeyIsSet info \<longrightarrow>
      Base_key (saved (Save put now info db)) = Base_key info
      \<and> ProfileID (saved (Save put now info db)) = ProfileID info)
   \<and> KeyIsSet (saved (Save put now info db))
   \<and> Base_key (fst (run_ops put ops (saved (Save put now info db), db')))
        = Base_key (saved (Save put now info db))"
  using Base_key_Save_record_unset[of info now] Base_key_Save_record_set[of info now]
    KeyIsSet_Save_record[of now info] run_ops_key[OF KeyIsSet_Save_record, of put ops now info db']
  by (simp add: saved_Save makeIPInfoKey_def)

theorem Save_key_assigned_once_witness:
  "Base_key (saved (Save mem_Put 1000000 (new_IPInfo ''1.2.3.4'' [] []) Map.empty))
     = Some ''cache:intel/ipInfo/global/1.2.3.4''
   \<and> ProfileID (saved (Save mem_Put 1000000 (new_IPInfo ''1.2.3.4'' [] []) Map.empty)) = ''global''
   \<and> Base_key (saved (Save mem_Put 1000000 (new_IPInfo ''1.2.3.4'' ''firefox'' []) Map.empty))
     = Some ''cache:intel/ipInfo/firefox/1.2.3.4''
   \<and> Base_key (saved (Save mem_Put 2000000
        ((new_IPInfo ''5.6.7.8'' ''other'' [])\<lparr>Base_key := Some ''cache:intel/ipInfo/global/1.2.3.4''\<rparr>)
        Map.empty))
     = Some ''cache:intel/ipInfo/global/1.2.3.4''
   \<and> Base_key (fst (run_ops mem_Put [OpAddDomain (mkRD ''a.com'' 100), OpSave 2000000]
        (saved (Save mem_Put 1000000 (new_IPInfo ''1.2.3.4'' [] []) Map.empty), Map.empty)))
     = Some ''cache:intel/ipInfo/global/1.2.3.4''"
proof -
  let ?i = "new_IPInfo ''1.2.3.4'' [] []"
  let ?j = "new_IPInfo ''1.2.3.4'' ''firefox'' []"
  let ?k = "(new_IPInfo ''5.6.7.8'' ''other'' [])\<lparr>Base_key := Some ''cache:intel/ipInfo/global/1.2.3.4''\<rparr>"
  have u: "\<not> KeyIsSet ?i" "\<not> KeyIsSet ?j" "KeyIsSet ?k" by (simp_all add: KeyIsSet_def new_IPInfo_def)
  from u Save_key_assigned_once[of ?i mem_Put 1000000 Map.empty
        "[OpAddDomain (mkRD ''a.com'' 100), OpSave 2000000]" Map.empty]
  have 1: "Base_key (saved (Save mem_Put 1000000 ?i Map.empty)) = Some ''cache:intel/ipInfo/global/1.2.3.4''"
    "ProfileID (saved (Save mem_Put 1000000 ?i Map.empty)) = ''global''"
    "Base_key (fst (run_ops mem_Put [OpAddDomain (mkRD ''a.com'' 100), OpSave 2000000]
        (saved (Save mem_Put 1000000 ?i Map.empty), Map.empty)))
     = Some ''cache:intel/ipInfo/global/1.2.3.4''"
    by (simp_all add: new_IPInfo_def)
  from u Save_key_assigned_once[of ?j mem_Put 1000000 Map.empty "[]" Map.empty]
  have 2: "Base_key (saved (Save mem_Put 1000000 ?j Map.empty)) = Some ''cache:intel/ipInfo/firefox/1.2.3.4''"
    by (simp add: new_IPInfo_def)
  from u Save_key_assigned_once[of ?k mem_Put 2000000 Map.empty "[]" Map.empty]
  have 3: "Base_key (saved (Save mem_Put 2000000 ?k Map.empty)) = Some ''cache:intel/ipInfo/global/1.2.3.4''"
    by (simp add: new_IPInfo_def)
  from 1 2 3 show ?thesis by simp
qed

section \<open>Properties of the membership resolver\<close>

subsection \<open>Auxiliary facts\<close>

lemma isUpper_lower_byte: "\<not> isUpper (lower_byte c)"
  by (auto simp: lower_byte_def isUpper_def)

lemma lower_byte_ascii: "of_char c < (128::nat) \<Longrightarrow> of_char (lower_byte c) < (128::nat)"
  by (auto simp: lower_byte_def isUpper_def)


lemma ToLower_ascii:
  assumes "isASCII d"
  shows "isASCII (ToLower env d)" and "\<not> list_ex isUpper (ToLower env d)"
    and "length (ToLower env d) = length d"
  using assms
  by (auto simp: ToLower_def isASCII_def list_all_iff list_ex_iff lower_byte_ascii isUpper_lower_byte)




lemma lookupBlockLists_not_loaded:
  "\<not> isLoaded env \<Longrightarrow>
     lookupBlockLists env entity v tr = (Inr [], tr @ [LogWarning (makeListCacheKey env entity v)])"
  by (simp add: lookupBlockLists_def Let_def)

lemma store_queries_append: "store_queries (xs @ ys) = store_queries xs @ store_queries ys"
  by (induction xs rule: store_queries.induct) simp_all

lemma filter_tests_append: "filter_tests (xs @ ys) = filter_tests xs @ filter_tests ys"
  by (induction xs rule: filter_tests.induct) simp_all

subsection \<open>Lists not loaded\<close>

text \<open>
  Claim C3 as stated, for every lookup and every input, fails for the \<open>net.IP\<close>
  forms: they check the address family before anything else, so \<open>LookupIPv4\<close> of
  the IPv6 loopback address returns the error \<open>invalid IPv4\<close> also while the lists
  are not loaded.
\<close>

theorem not_loaded_ipv4_counterexample:
  "\<not> isLoaded (demo_env False)
   \<and> LookupIPv4 (demo_env False) loopback6 [] = (Inl ErrInvalidIPv4, [])"
  by (simp add: LookupIPv4_def To4_def loopback6_def demo_env_def)

text \<open>
  Claim C3, amended: while the lists are not loaded, \<open>LookupCountry\<close>,
  \<open>LookupASNString\<close>, \<open>LookupIPv4String\<close> and \<open>LookupIPv6String\<close> return no
  sources and no error for every input, after a warning in the log and without a test
  of the pre-filter or a query to the store; so does \<open>LookupDomain\<close> for every domain
  whose lower-case form is not empty, as it is for every non-empty domain of ASCII
  bytes; \<open>LookupIPv4\<close>, \<open>LookupIPv6\<close> and \<open>LookupIP\<close> return no sources and
  no error for every address of a length their family check accepts, and their
  invalid-address error for every other.
\<close>

theorem lookups_fail_open_when_not_loaded:
  assumes "\<not> isLoaded env"
  shows "LookupCountry env s tr = (Inr [], tr @ [LogWarning (makeListCacheKey env ''country'' s)])
       \<and> LookupASNString env s tr = (Inr [], tr @ [LogWarning (makeListCacheKey env ''asn'' s)])
       \<and> LookupIPv4String env s tr = (Inr [], tr @ [LogWarning (makeListCacheKey env ''ipv4'' s)])
       \<and> LookupIPv6String env s tr = (Inr [], tr @ [LogWarning (makeListCacheKey env ''ipv6'' s)])
       \<and> (ToLower env s \<noteq> [] \<longrightarrow>
            (\<exists>k. domain_key env s = Returns k
               \<and> LookupDomain env s tr
                   = Returns (Inr [], tr @ [LogWarning (makeListCacheKey env ''domain'' k)])))
       \<and> (isASCII s \<and> s \<noteq> [] \<longrightarrow> ToLower env s \<noteq> [])
       \<and> fst (LookupIPv4 env ip tr) = (if To4 ip = None then Inl ErrInvalidIPv4 else Inr [])
       \<and> fst (LookupIPv6 env ip tr) = (if To16 ip = None then Inl ErrInvalidIPv6 else Inr [])
       \<and> fst (LookupIP env ip tr)
           = (if To4 ip = None \<and> To16 ip = None then Inl ErrInvalidIPv6 else Inr [])"
proof -
  note nl = lookupBlockLists_not_loaded[OF assms]
  have d: "ToLower env s \<noteq> [] \<longrightarrow>
            (\<exists>k. domain_key env s = Returns k
               \<and> LookupDomain env s tr
                   = Returns (Inr [], tr @ [LogWarning (makeListCacheKey env ''domain'' k)]))"
    by (simp add: LookupDomain_def domain_key_def Let_def nl)
  have v4: "fst (LookupIPv4 env ip tr) = (if To4 ip = None then Inl ErrInvalidIPv4 else Inr [])"
    by (auto simp: LookupIPv4_def LookupIPv4String_def nl split: option.splits)
  have v6: "fst (LookupIPv6 env ip tr) = (if To16 ip = None then Inl ErrInvalidIPv6 else Inr [])"
    by (auto simp: LookupIPv6_def LookupIPv6String_def nl split: option.splits)
  have ip: "fst (LookupIP env ip tr)
           = (if To4 ip = None \<and> To16 ip = None then Inl ErrInvalidIPv6 else Inr [])"
    using v4 v6 by (simp add: LookupIP_def)
  have a: "isASCII s \<and> s \<noteq> [] \<longrightarrow> ToLower env s \<noteq> []"
    using ToLower_ascii(3)[of s env] by auto
  from d a v4 v6 ip show ?thesis
    by (simp add: LookupCountry_def LookupASNString_def LookupIPv4String_def LookupIPv6String_def nl)
qed

theorem lookups_fail_open_when_not_loaded_witness:
  "\<not> isLoaded (demo_env False)
   \<and> LookupIPv4String (demo_env False) ''6.6.6.6'' []
       = (Inr [], [LogWarning ''cache:intel/filterlists/lists/ipv4/6.6.6.6''])
   \<and> LookupDomain (demo_env False) ''Broken.Example'' []
       = Returns (Inr [], [LogWarning ''cache:intel/filterlists/lists/domain/broken.example.''])
   \<and> fst (LookupIPv4 (demo_env False) [6, 6, 6, 6] []) = Inr []
   \<and> fst (LookupIP (demo_env False) loopback6 []) = Inr []
   \<and> fst (LookupIP (demo_env False) [1, 2, 3] []) = Inl ErrInvalidIPv6"
proof -
  have nl: "\<not> isLoaded (demo_env False)" by (simp add: demo_env_def)
  have l: "ToLower (demo_env False) ''Broken.Example'' \<noteq> []" by code_simp
  have k: "domain_key (demo_env False) ''Broken.Example'' = Returns ''broken.example.''" by code_simp
  have mk: "makeListCacheKey (demo_env False) = demo_key" by (simp add: demo_env_def)
  note t = lookups_fail_open_when_not_loaded[OF nl]
  from t[of "''6.6.6.6''" "[]"]
  have 1: "LookupIPv4String (demo_env False) ''6.6.6.6'' []
       = (Inr [], [LogWarning ''cache:intel/filterlists/lists/ipv4/6.6.6.6''])"
    by (simp add: mk demo_key_def)
  from t[of "''Broken.Example''" "[]"] l k
  have 2: "LookupDomain (demo_env False) ''Broken.Example'' []
       = Returns (Inr [], [LogWarning ''cache:intel/filterlists/lists/domain/broken.example.''])"
    by (simp add: mk demo_key_def)
  from t[of _ _ "[6, 6, 6, 6]"]
  have 3: "fst (LookupIPv4 (demo_env False) [6, 6, 6, 6] []) = Inr []"
    by (simp add: To4_def)
  from t[of _ _ loopback6]
  have 4: "fst (LookupIP (demo_env False) loopback6 []) = Inr []"
    by (simp add: To4_def To16_def loopback6_def)
  from t[of _ _ "[1, 2, 3]"]
  have 5: "fst (LookupIP (demo_env False) [1, 2, 3] []) = Inl ErrInvalidIPv6"
    by (simp add: To4_def To16_def)
  from nl 1 2 3 4 5 show ?thesis by simp
qed

subsection \<open>Pre-filter miss\<close>

text \<open>
  Claim C4: for every entity kind and value, when the lists are loaded and the
  pre-filter answers false, the lookup returns no sources and no error, and makes no
  query to the record store: the trace grows by the filter test alone.
\<close>

theorem prefilter_miss_skips_store:
  assumes "isLoaded env" and "\<not> defaultFilter_test env entity v"
  shows "lookupBlockLists env entity v tr = (Inr [], tr @ [FilterTest entity v])
       \<and> store_queries (snd (lookupBlockLists env entity v tr)) = store_queries tr"
  using assms by (simp add: lookupBlockLists_def Let_def store_queries_append)

theorem prefilter_miss_skips_store_witness:
  "isLoaded (demo_env True) \<and> \<not> defaultFilter_test (demo_env True) ''ipv4'' ''1.2.3.4''
   \<and> LookupIPv4String (demo_env True) ''1.2.3.4'' [] = (Inr [], [FilterTest ''ipv4'' ''1.2.3.4''])
   \<and> store_queries (snd (LookupIPv4String (demo_env True) ''1.2.3.4'' [])) = []"
proof -
  have a: "isLoaded (demo_env True)" and b: "\<not> defaultFilter_test (demo_env True) ''ipv4'' ''1.2.3.4''"
    by (simp_all add: demo_env_def)
  from prefilter_miss_skips_store[OF a b, of "[]"] a b show ?thesis
    by (simp add: LookupIPv4String_def)
qed

subsection \<open>Results of the store\<close>

text \<open>
  Claim C5: when the lists are loaded and the pre-filter answers true, the store is
  queried once, with the key of the entity kind and value; \<open>ErrNotFound\<close> yields no
  sources and no error, any other error of the store is returned as it is, and an entry
  found yields its \<open>Sources\<close> unchanged.
\<close>

theorem store_result_handling:
  assumes "isLoaded env" and "defaultFilter_test env entity v"
  shows "(getEntityRecordByKey env (makeListCacheKey env entity v) = Inl ErrNotFound
            \<longrightarrow> fst (lookupBlockLists env entity v tr) = Inr [])
       \<and> (\<forall>e. getEntityRecordByKey env (makeListCacheKey env entity v) = Inl e \<and> e \<noteq> ErrNotFound
            \<longrightarrow> fst (lookupBlockLists env entity v tr) = Inl e)
       \<and> (\<forall>entry. getEntityRecordByKey env (makeListCacheKey env entity v) = Inr entry
            \<longrightarrow> fst (lookupBlockLists env entity v tr) = Inr (Sources entry))
       \<and> store_queries (snd (lookupBlockLists env entity v tr))
           = store_queries tr @ [makeListCacheKey env entity v]"
  using assms
  by (auto simp: lookupBlockLists_def Let_def store_queries_append split: sum.splits)

theorem store_result_handling_witness:
  "fst (lookupBlockLists (demo_env True) ''domain'' ''maybe.example.'' []) = Inr []
   \<and> fst (lookupBlockLists (demo_env True) ''domain'' ''broken.example.'' [])
       = Inl (ErrStore ''i/o error'')
   \<and> fst (lookupBlockLists (demo_env True) ''ipv4'' ''6.6.6.6'' []) = Inr [''TRAC'', ''MAL'']
   \<and> store_queries (snd (lookupBlockLists (demo_env True) ''ipv4'' ''6.6.6.6'' []))
       = [''cache:intel/filterlists/lists/ipv4/6.6.6.6'']"
proof -
  let ?e = "demo_env True"
  have a: "isLoaded ?e" by (simp add: demo_env_def)
  have t: "defaultFilter_test ?e ''domain'' ''maybe.example.''"
      "defaultFilter_test ?e ''domain'' ''broken.example.''"
      "defaultFilter_test ?e ''ipv4'' ''6.6.6.6''"
    by (simp_all add: demo_env_def)
  have g: "getEntityRecordByKey ?e (makeListCacheKey ?e ''domain'' ''maybe.example.'') = Inl ErrNotFound"
      "getEntityRecordByKey ?e (makeListCacheKey ?e ''domain'' ''broken.example.'')
         = Inl (ErrStore ''i/o error'')"
      "getEntityRecordByKey ?e (makeListCacheKey ?e ''ipv4'' ''6.6.6.6'')
         = Inr \<lparr>Sources = [''TRAC'', ''MAL'']\<rparr>"
      "makeListCacheKey ?e ''ipv4'' ''6.6.6.6'' = ''cache:intel/filterlists/lists/ipv4/6.6.6.6''"
    by (simp_all add: demo_env_def demo_store_def demo_key_def)
  from store_result_handling[OF a t(1), of "[]"] g(1)
  have 1: "fst (lookupBlockLists ?e ''domain'' ''maybe.example.'' []) = Inr []" by simp
  from store_result_handling[OF a t(2), of "[]"] g(2)
  have 2: "fst (lookupBlockLists ?e ''domain'' ''broken.example.'' []) = Inl (ErrStore ''i/o error'')"
    by simp
  from store_result_handling[OF a t(3), of "[]"] g(3) g(4)
  have 3: "fst (lookupBlockLists ?e ''ipv4'' ''6.6.6.6'' []) = Inr [''TRAC'', ''MAL'']"
    "store_queries (snd (lookupBlockLists ?e ''ipv4'' ''6.6.6.6'' []))
       = [''cache:intel/filterlists/lists/ipv4/6.6.6.6'']"
    by simp_all
  from 1 2 3 show ?thesis by simp
qed

subsection \<open>Normalisation of domains\<close>



subsection \<open>Malformed addresses\<close>

text \<open>
  Claim C8 as stated fails for \<open>LookupIPv4String\<close> and \<open>LookupIPv6String\<close>:
  they do not parse their argument.  A string that \<open>ParseIP\<close> rejects is looked up
  like any other value: the pre-filter is tested, the store is queried when the filter
  answers true, and the result is a list of sources, not an error.
\<close>

theorem string_lookup_unvalidated_counterexample:
  "ParseIP (demo_env True) ''6.6.6.6.6'' = None
   \<and> LookupIPv4String (demo_env True) ''6.6.6.6.6'' [] = (Inr [], [FilterTest ''ipv4'' ''6.6.6.6.6''])
   \<and> ParseIP (demo_env True) ''maybe.example.'' = None
   \<and> fst (LookupIPv6String (demo_env True) ''maybe.example.'' []) = Inr []
   \<and> filter_tests (snd (LookupIPv6String (demo_env True) ''maybe.example.'' []))
       = [(''ipv6'', ''maybe.example.'')]
   \<and> store_queries (snd (LookupIPv6String (demo_env True) ''maybe.example.'' []))
       = [''cache:intel/filterlists/lists/ipv6/maybe.example.'']"
  by (simp add: LookupIPv4String_def LookupIPv6String_def lookupBlockLists_def Let_def
        demo_env_def demo_store_def demo_key_def)

text \<open>
  Claim C8, amended: for every string that \<open>ParseIP\<close> rejects, \<open>LookupIPString\<close>
  fails with the error \<open>invalid IP\<close> before any test of the pre-filter and any query
  to the store (the trace is unchanged); \<open>LookupIPv4String\<close> and
  \<open>LookupIPv6String\<close> pass their argument unparsed to the shared lookup, as the
  value of kind \<open>ipv4\<close> and \<open>ipv6\<close>.
\<close>

theorem malformed_ip_string_rejected:
  "(ParseIP env s = None \<longrightarrow> LookupIPString env s tr = (Inl ErrInvalidIP, tr))
   \<and> LookupIPv4String env s tr = lookupBlockLists env ''ipv4'' s tr
   \<and> LookupIPv6String env s tr = lookupBlockLists env ''ipv6'' s tr"
  by (simp add: LookupIPString_def LookupIPv4String_def LookupIPv6String_def)

theorem malformed_ip_string_rejected_witness:
  "ParseIP (demo_env True) ''6.6.6.6.6'' = None
   \<and> LookupIPString (demo_env True) ''6.6.6.6.6'' [] = (Inl ErrInvalidIP, [])"
proof -
  have p: "ParseIP (demo_env True) ''6.6.6.6.6'' = None" by (simp add: demo_env_def)
  with malformed_ip_string_rejected[of "demo_env True" "''6.6.6.6.6''" "[]"] show ?thesis by simp
qed

subsection \<open>Panics\<close>

text \<open>
  Claim C9: no lookup panics, the empty string passed to \<open>LookupDomain\<close> included.
  \<open>LookupDomain\<close> reads the last byte of the lower-cased domain without a check of
  its length: on the empty string it panics, in every environment and whether the lists
  are loaded or not, before the shared lookup is reached.
\<close>

theorem LookupDomain_empty_panics:
  "LookupDomain env [] tr = Panics
   \<and> LookupDomain (demo_env True) [] [] = Panics
   \<and> LookupDomain (demo_env False) [] [] = Panics"
  by (simp add: LookupDomain_def domain_key_def ToLower_def isASCII_def)

end
